theory Spec2Isabelle
  imports Main
begin

section \<open>Strings as the TypeScript code uses them\<close>

text \<open>
  Strings are lists of 8-bit characters. The helpers below are the JavaScript string
  methods the four modules call: \<^verbatim>\<open>trim\<close>, \<^verbatim>\<open>startsWith\<close>, \<^verbatim>\<open>includes\<close>,
  \<^verbatim>\<open>split\<close>, \<^verbatim>\<open>replace\<close>, \<^verbatim>\<open>toLowerCase\<close> and \<^verbatim>\<open>join\<close>.
\<close>

text \<open>White space and line terminators that \<^verbatim>\<open>String.prototype.trim\<close> strips (8-bit range).\<close>

definition is_space :: "char \<Rightarrow> bool" where
  "is_space c = (c \<in> set [CHR 0x09, CHR 0x0A, CHR 0x0B, CHR 0x0C, CHR 0x0D, CHR 0x20, CHR 0xA0])"

definition trim :: "string \<Rightarrow> string" where
  "trim s = rev (dropWhile is_space (rev (dropWhile is_space s)))"

text \<open>
  The test \<^verbatim>\<open>!s || s.trim() === ""\<close> (also written \<^verbatim>\<open>!s || !s.trim()\<close>): it holds of
  the empty string and of a string of white space only.
\<close>

definition blank :: "string \<Rightarrow> bool" where
  "blank s = (s = [] \<or> trim s = [])"

definition startsWith :: "string \<Rightarrow> string \<Rightarrow> bool" where
  "startsWith s p = (take (length p) s = p)"

fun str_includes :: "string \<Rightarrow> string \<Rightarrow> bool" where
  "str_includes [] p = (p = [])"
| "str_includes (c # cs) p = (startsWith (c # cs) p \<or> str_includes cs p)"

text \<open>\<^verbatim>\<open>s.split(sep)\<close> for a one-character separator.\<close>

fun split :: "string \<Rightarrow> char \<Rightarrow> string list" where
  "split [] sep = [[]]"
| "split (c # cs) sep =
     (if c = sep then [] # split cs sep
      else (case split cs sep of [] \<Rightarrow> [[c]] | p # ps \<Rightarrow> (c # p) # ps))"

text \<open>\<^verbatim>\<open>parts.join(sep)\<close>.\<close>

fun join :: "string list \<Rightarrow> string \<Rightarrow> string" where
  "join [] sep = []"
| "join [p] sep = p"
| "join (p # q # ps) sep = p @ sep @ join (q # ps) sep"

text \<open>\<^verbatim>\<open>s.replace(pat, rep)\<close> with a string pattern: the first occurrence only.\<close>

fun replace :: "string \<Rightarrow> string \<Rightarrow> string \<Rightarrow> string" where
  "replace [] pat rep = (if pat = [] then rep else [])"
| "replace (c # cs) pat rep =
     (if startsWith (c # cs) pat then rep @ drop (length pat) (c # cs)
      else c # replace cs pat rep)"

text \<open>\<^verbatim>\<open>s.replace(/"/g, '\\"')\<close>: every double quote gets a backslash in front.\<close>

definition escape_quotes :: "string \<Rightarrow> string" where
  "escape_quotes s = concat (map (\<lambda>c. if c = CHR 0x22 then [CHR 0x5C, CHR 0x22] else [c]) s)"

definition toLowerCase :: "string \<Rightarrow> string" where
  "toLowerCase s =
     map (\<lambda>c. let n = (of_char c :: nat) in
            if (65 \<le> n \<and> n \<le> 90) \<or> (192 \<le> n \<and> n \<le> 222 \<and> n \<noteq> 215)
            then char_of (n + 32) else c) s"

text \<open>\<^verbatim>\<open>xs[i] || d\<close> on an array of strings: a missing or empty entry gives the default.\<close>

definition nth_or :: "string list \<Rightarrow> nat \<Rightarrow> string \<Rightarrow> string" where
  "nth_or xs i d = (if i < length xs \<and> xs ! i \<noteq> [] then xs ! i else d)"

text \<open>
  An optional argument is \<open>None\<close> when the caller leaves it out. A default parameter
  (\<^verbatim>\<open>limit = 10\<close>) replaces a missing argument only; \<^verbatim>\<open>x || d\<close> and \<^verbatim>\<open>x ? x : d\<close>
  on an optional string also replace the empty string.
\<close>

definition default_to :: "'a option \<Rightarrow> 'a \<Rightarrow> 'a" where
  "default_to x d = (case x of None \<Rightarrow> d | Some v \<Rightarrow> v)"

definition truthy_or :: "string option \<Rightarrow> string \<Rightarrow> string" where
  "truthy_or x d = (case x of None \<Rightarrow> d | Some v \<Rightarrow> if v = [] then d else v)"

text \<open>\<^verbatim>\<open>xs.slice(0, n)\<close>: a negative \<open>n\<close> counts from the end.\<close>

definition slice0 :: "'a list \<Rightarrow> int \<Rightarrow> 'a list" where
  "slice0 xs n = (if 0 \<le> n then take (nat n) xs else take (length xs - nat (- n)) xs)"

section \<open>The native boundary\<close>

text \<open>
  Every module reaches its application through \<^verbatim>\<open>runAppleScript(script)\<close>, whose
  promise either rejects with an error or resolves to a string. A script is a template
  of the source; the model names each template by a constructor that carries the values
  interpolated into it.
\<close>

datatype tmp_file =
    NoteContentTmp nat   \<comment> \<open>\<^verbatim>\<open>/tmp/note-content-${Date.now()}.txt\<close>\<close>
  | EmailBodyTmp nat     \<comment> \<open>\<^verbatim>\<open>/tmp/email-body-${Date.now()}.txt\<close>\<close>

datatype script =
    MailProbe | NotesProbe | CalendarProbe | RemindersProbe
  | UnreadMailsScript int
  | SearchMailsScript string int
  | SendMailScript tmp_file string string "string option" "string option"
  | MailboxesScript
  | AccountsScript
  | AccountMailboxesScript string
  | LatestMailsScript string int
  | AllNotesScript
  | FindNoteScript string
  | CreateNoteScript string string tmp_file
  | FolderNotesScript string
  | GetEventsScript string string
  | SearchEventsScript
  | CreateEventScript string string string string bool string string
  | OpenEventScript
  | AllListsScript
  | AllRemindersScript
  | SearchRemindersScript
  | CreateReminderScript string
  | ActivateRemindersScript
  | RemindersByIdScript

datatype reply = Throws string | Returns string

type_synonym event = "script \<times> reply"

text \<open>
  The world outside the process: the native automation subsystem, which may answer a
  script differently depending on everything dispatched before; the file system call
  \<^verbatim>\<open>fs.writeFileSync\<close> (\<open>Some e\<close> when it throws); the clock; and the JavaScript
  engine's date parser and formatter.
\<close>

record world =
  native :: "event list \<Rightarrow> script \<Rightarrow> reply"
  write_error :: "tmp_file \<Rightarrow> string \<Rightarrow> string option"
  now :: nat
  date_string :: string
  iso_today :: string
  iso_after_days :: "nat \<Rightarrow> string"
  parse_date :: "string \<Rightarrow> int option"
  locale_string :: "int \<Rightarrow> string"

text \<open>
  An asynchronous function of the source is a computation over the log of native
  dispatches: it returns a value (\<open>Inr\<close>) or throws an error message (\<open>Inl\<close>), and
  extends the log. An error is represented by its message, which is all a handler of the
  source reads of it. Writing to the console and removing the temporary file (whose
  failure the source ignores) change neither the result nor the log and are left out.
\<close>

type_synonym 'a io = "event list \<Rightarrow> (string + 'a) \<times> event list"

definition io_return :: "'a \<Rightarrow> 'a io" where
  "io_return x tr = (Inr x, tr)"

definition io_throw :: "string \<Rightarrow> 'a io" where
  "io_throw e tr = (Inl e, tr)"

definition io_bind :: "'a io \<Rightarrow> ('a \<Rightarrow> 'b io) \<Rightarrow> 'b io" where
  "io_bind m f tr = (case m tr of (Inl e, tr') \<Rightarrow> (Inl e, tr') | (Inr x, tr') \<Rightarrow> f x tr')"

definition io_catch :: "'a io \<Rightarrow> (string \<Rightarrow> 'a io) \<Rightarrow> 'a io" where
  "io_catch m h tr = (case m tr of (Inl e, tr') \<Rightarrow> h e tr' | (Inr x, tr') \<Rightarrow> (Inr x, tr'))"

definition runAppleScript :: "world \<Rightarrow> script \<Rightarrow> string io" where
  "runAppleScript w s tr =
     (case native w tr s of
        Throws e \<Rightarrow> (Inl e, tr @ [(s, Throws e)])
      | Returns v \<Rightarrow> (Inr v, tr @ [(s, Returns v)]))"

definition writeFileSync :: "world \<Rightarrow> tmp_file \<Rightarrow> string \<Rightarrow> unit io" where
  "writeFileSync w f content tr =
     (case write_error w f content of None \<Rightarrow> (Inr (), tr) | Some e \<Rightarrow> (Inl e, tr))"

record AccessCheckResult =
  hasAccess :: bool
  message :: string

section \<open>Mail\<close>

definition MAX_EMAILS :: int where
  "MAX_EMAILS = 20"

record EmailMessage =
  em_subject :: string
  em_sender :: string
  em_dateSent :: string
  em_content :: string
  em_isRead :: bool
  em_mailbox :: string

definition checkMailAccess :: "world \<Rightarrow> bool io" where
  "checkMailAccess w =
     io_catch (io_bind (runAppleScript w MailProbe) (\<lambda>_. io_return True))
              (\<lambda>error. io_return False)"

definition mail_instructions :: string where
  "mail_instructions =
     ''Mail access is required but not granted. Please:'' @ [CHR 0x0A] @
     ''1. Open System Settings > Privacy & Security > Automation'' @ [CHR 0x0A] @
     ''2. Find your terminal/app in the list and enable '' @ [CHR 0x27] @ ''Mail'' @
       [CHR 0x27, CHR 0x0A] @
     ''3. Make sure Mail app is running and configured with at least one account'' @ [CHR 0x0A] @
     ''4. Restart your terminal and try again''"

definition requestMailAccess :: "world \<Rightarrow> AccessCheckResult io" where
  "requestMailAccess w =
     io_catch
       (io_bind (checkMailAccess w) (\<lambda>granted.
          if granted
          then io_return \<lparr>hasAccess = True, message = ''Mail access is already granted.''\<rparr>
          else io_return \<lparr>hasAccess = False, message = mail_instructions\<rparr>))
       (\<lambda>error. io_return \<lparr>hasAccess = False,
                             message = ''Error checking Mail access: '' @ error\<rparr>)"

definition getUnreadMails :: "world \<Rightarrow> int option \<Rightarrow> EmailMessage list io" where
  "getUnreadMails w limit =
     io_catch
       (io_bind (requestMailAccess w) (\<lambda>accessResult.
          if \<not> hasAccess accessResult then io_throw (message accessResult)
          else
            let maxEmails = min (default_to limit 10) MAX_EMAILS in
            io_bind (runAppleScript w (UnreadMailsScript maxEmails)) (\<lambda>result.
              if result \<noteq> [] \<and> startsWith result ''SUCCESS:'' then io_return []
              else io_return [])))
       (\<lambda>error. io_return [])"

definition searchMails :: "world \<Rightarrow> string \<Rightarrow> int option \<Rightarrow> EmailMessage list io" where
  "searchMails w searchTerm limit =
     io_catch
       (io_bind (requestMailAccess w) (\<lambda>accessResult.
          if \<not> hasAccess accessResult then io_throw (message accessResult)
          else if blank searchTerm then io_return []
          else
            let maxEmails = min (default_to limit 10) MAX_EMAILS;
                cleanSearchTerm = toLowerCase searchTerm in
            io_bind (runAppleScript w (SearchMailsScript cleanSearchTerm maxEmails)) (\<lambda>result.
              if result \<noteq> [] \<and> startsWith result ''SUCCESS:'' then io_return []
              else io_return [])))
       (\<lambda>error. io_return [])"

text \<open>\<^verbatim>\<open>cc ? `make new cc recipient ... "${cc.replace(/"/g, '\\"')}"` : ""\<close>\<close>

definition recipient_line :: "string option \<Rightarrow> string option" where
  "recipient_line cc =
     (case cc of None \<Rightarrow> None
      | Some a \<Rightarrow> if a = [] then None else Some (escape_quotes a))"

definition sendMail ::
  "world \<Rightarrow> string \<Rightarrow> string \<Rightarrow> string \<Rightarrow> string option \<Rightarrow> string option \<Rightarrow> string io" where
  "sendMail w to subject body cc bcc =
     io_catch
       (io_bind (requestMailAccess w) (\<lambda>accessResult.
          if \<not> hasAccess accessResult then io_throw (message accessResult)
          else if blank to then io_throw ''To address is required''
          else if blank subject then io_throw ''Subject is required''
          else if blank body then io_throw ''Email body is required''
          else
            let tmpFile = EmailBodyTmp (now w) in
            io_bind (writeFileSync w tmpFile (trim body)) (\<lambda>_.
            io_bind (runAppleScript w
                       (SendMailScript tmpFile (escape_quotes subject) (escape_quotes to)
                          (recipient_line cc) (recipient_line bcc))) (\<lambda>result.
              if result = ''SUCCESS''
              then io_return (''Email sent to '' @ to @ '' with subject '' @
                              [CHR 0x22] @ subject @ [CHR 0x22])
              else io_throw ''Failed to send email''))))
       (\<lambda>error. io_throw (''Error sending email: '' @ error))"

text \<open>
  \<^verbatim>\<open>Array.isArray(result)\<close> is false of the string \<^verbatim>\<open>runAppleScript\<close> resolves to,
  so the three listing functions below take their final \<^verbatim>\<open>return []\<close>.
\<close>

definition getMailboxes :: "world \<Rightarrow> string list io" where
  "getMailboxes w =
     io_catch
       (io_bind (requestMailAccess w) (\<lambda>accessResult.
          if \<not> hasAccess accessResult then io_throw (message accessResult)
          else io_bind (runAppleScript w MailboxesScript) (\<lambda>result. io_return [])))
       (\<lambda>error. io_return [])"

definition getAccounts :: "world \<Rightarrow> string list io" where
  "getAccounts w =
     io_catch
       (io_bind (requestMailAccess w) (\<lambda>accessResult.
          if \<not> hasAccess accessResult then io_throw (message accessResult)
          else io_bind (runAppleScript w AccountsScript) (\<lambda>result. io_return [])))
       (\<lambda>error. io_return [])"

definition getMailboxesForAccount :: "world \<Rightarrow> string \<Rightarrow> string list io" where
  "getMailboxesForAccount w accountName =
     io_catch
       (io_bind (requestMailAccess w) (\<lambda>accessResult.
          if \<not> hasAccess accessResult then io_throw (message accessResult)
          else if blank accountName then io_return []
          else io_bind (runAppleScript w (AccountMailboxesScript (escape_quotes accountName)))
                 (\<lambda>result. io_return [])))
       (\<lambda>error. io_return [])"

text \<open>
  \<^verbatim>\<open>asResult.match(/\{([^}]+)\}/g)\<close>: the successive leftmost matches of an opening brace,
  at least one character that is not a closing brace, and a closing brace.
\<close>

function brace_matches :: "string \<Rightarrow> string list" where
  "brace_matches [] = []"
| "brace_matches (c # cs) =
     (if c = CHR ''{'' then
        (let inner = takeWhile (\<lambda>x. x \<noteq> CHR ''}'') cs;
             rest = dropWhile (\<lambda>x. x \<noteq> CHR ''}'') cs
         in if inner \<noteq> [] \<and> rest \<noteq> []
            then (c # inner @ [CHR ''}'']) # brace_matches (tl rest)
            else brace_matches cs)
      else brace_matches cs)"
  by pat_completeness auto
termination
proof (relation "measure length")
  show "wf (measure length)" by simp
next
  fix c :: char and cs inner rest
  assume "rest = dropWhile (\<lambda>x. x \<noteq> CHR ''}'') cs"
  then have "length rest \<le> length cs"
    by (simp add: length_dropWhile_le)
  then have "length (tl rest) \<le> length cs"
    by simp
  then show "(tl rest, c # cs) \<in> measure length" by simp
qed simp_all

text \<open>
  The \<^verbatim>\<open>props.forEach\<close> loop: each \<^verbatim>\<open>key: value\<close> property of a match is stored under
  its trimmed key; a property without a colon is skipped.
\<close>

fun parse_props :: "string list \<Rightarrow> (string \<rightharpoonup> string) \<Rightarrow> (string \<rightharpoonup> string)" where
  "parse_props [] email = email"
| "parse_props (prop # props) email =
     (let parts = split prop CHR '':'' in
      if length parts \<ge> 2
      then parse_props props (email(trim (hd parts) \<mapsto> trim (join (tl parts) '':'')))
      else parse_props props email)"

text \<open>\<^verbatim>\<open>email.key || d\<close>\<close>

definition prop_or :: "(string \<rightharpoonup> string) \<Rightarrow> string \<Rightarrow> string \<Rightarrow> string" where
  "prop_or email k d = (case email k of None \<Rightarrow> d | Some v \<Rightarrow> if v = [] then d else v)"

definition parse_emails :: "world \<Rightarrow> string \<Rightarrow> string list \<Rightarrow> EmailMessage list" where
  "parse_emails w account ms =
     concat (map (\<lambda>m.
       let props = split (take (length m - 2) (drop 1 m)) CHR '','';
           email = parse_props props Map.empty
       in if prop_or email ''subject'' [] \<noteq> [] \<or> prop_or email ''sender'' [] \<noteq> []
          then [\<lparr>em_subject = prop_or email ''subject'' ''No subject'',
                 em_sender = prop_or email ''sender'' ''Unknown sender'',
                 em_dateSent = prop_or email ''date'' (date_string w),
                 em_content = prop_or email ''content'' ''[Content not available]'',
                 em_isRead = False,
                 em_mailbox = account @ '' - '' @ prop_or email ''mailbox'' ''Unknown''\<rparr>]
          else []) ms)"

definition getLatestMails :: "world \<Rightarrow> string \<Rightarrow> int option \<Rightarrow> EmailMessage list io" where
  "getLatestMails w account limit =
     io_catch
       (io_bind (requestMailAccess w) (\<lambda>accessResult.
          if \<not> hasAccess accessResult then io_throw (message accessResult)
          else io_bind (runAppleScript w (LatestMailsScript (escape_quotes account) (default_to limit 5)))
                 (\<lambda>asResult.
                    if asResult \<noteq> [] \<and> startsWith asResult ''Error:'' then io_throw asResult
                    else io_return (parse_emails w account (brace_matches asResult)))))
       (\<lambda>error. io_return [])"

section \<open>Notes\<close>

text \<open>The optional date fields of a note are never filled in by this module.\<close>

record Note =
  note_name :: string
  note_content :: string
  note_creationDate :: "int option"
  note_modificationDate :: "int option"

record CreateNoteResult =
  cn_success :: bool
  cn_note :: "Note option"
  cn_message :: "string option"
  cn_folderName :: "string option"
  cn_usedDefaultFolder :: "bool option"

record FolderNotesResult =
  fn_success :: bool
  fn_notes :: "Note list option"
  fn_message :: "string option"

definition checkNotesAccess :: "world \<Rightarrow> bool io" where
  "checkNotesAccess w =
     io_catch (io_bind (runAppleScript w NotesProbe) (\<lambda>_. io_return True))
              (\<lambda>error. io_return False)"

definition notes_instructions :: string where
  "notes_instructions =
     ''Notes access is required but not granted. Please:'' @ [CHR 0x0A] @
     ''1. Open System Settings > Privacy & Security > Automation'' @ [CHR 0x0A] @
     ''2. Find your terminal/app in the list and enable '' @ [CHR 0x27] @ ''Notes'' @
       [CHR 0x27, CHR 0x0A] @
     ''3. Restart your terminal and try again'' @ [CHR 0x0A] @
     ''4. If the option is not available, run this command again to trigger the permission dialog''"

definition requestNotesAccess :: "world \<Rightarrow> AccessCheckResult io" where
  "requestNotesAccess w =
     io_catch
       (io_bind (checkNotesAccess w) (\<lambda>granted.
          if granted
          then io_return \<lparr>hasAccess = True, message = ''Notes access is already granted.''\<rparr>
          else io_return \<lparr>hasAccess = False, message = notes_instructions\<rparr>))
       (\<lambda>error. io_return \<lparr>hasAccess = False,
                             message = ''Error checking Notes access: '' @ error\<rparr>)"

text \<open>
  \<^verbatim>\<open>Array.isArray(result) ? result : result ? [result] : []\<close> on the string the script
  resolved to: a non-empty string becomes a one-element array. Reading \<^verbatim>\<open>.name\<close> or
  \<^verbatim>\<open>.content\<close> of a string gives \<^verbatim>\<open>undefined\<close>, so each element maps to the defaults.
\<close>

definition resultArray :: "string \<Rightarrow> string list" where
  "resultArray result = (if result \<noteq> [] then [result] else [])"

definition note_of :: "string \<Rightarrow> Note" where
  "note_of noteData =
     \<lparr>note_name = ''Untitled Note'', note_content = [],
      note_creationDate = None, note_modificationDate = None\<rparr>"

definition getAllNotes :: "world \<Rightarrow> Note list io" where
  "getAllNotes w =
     io_catch
       (io_bind (requestNotesAccess w) (\<lambda>accessResult.
          if \<not> hasAccess accessResult then io_throw (message accessResult)
          else io_bind (runAppleScript w AllNotesScript) (\<lambda>result.
                 io_return (map note_of (resultArray result)))))
       (\<lambda>error. io_return [])"

definition findNote :: "world \<Rightarrow> string \<Rightarrow> Note list io" where
  "findNote w searchText =
     io_catch
       (io_bind (requestNotesAccess w) (\<lambda>accessResult.
          if \<not> hasAccess accessResult then io_throw (message accessResult)
          else if blank searchText then io_return []
          else
            let searchTerm = toLowerCase searchText in
            io_bind (runAppleScript w (FindNoteScript searchTerm)) (\<lambda>result.
              io_return (map note_of (resultArray result)))))
       (\<lambda>error. io_return [])"

definition createNote :: "world \<Rightarrow> string \<Rightarrow> string \<Rightarrow> string option \<Rightarrow> CreateNoteResult io" where
  "createNote w title body folderName =
     io_catch
       (io_bind (requestNotesAccess w) (\<lambda>accessResult.
          if \<not> hasAccess accessResult
          then io_return \<lparr>cn_success = False, cn_note = None,
                          cn_message = Some (message accessResult),
                          cn_folderName = None, cn_usedDefaultFolder = None\<rparr>
          else if blank title
          then io_return \<lparr>cn_success = False, cn_note = None,
                          cn_message = Some ''Note title cannot be empty'',
                          cn_folderName = None, cn_usedDefaultFolder = None\<rparr>
          else
            let formattedBody = trim body;
                tmpFile = NoteContentTmp (now w) in
            io_bind (writeFileSync w tmpFile formattedBody) (\<lambda>_.
            io_bind (runAppleScript w
                       (CreateNoteScript (default_to folderName ''Claude'')
                          (escape_quotes title) tmpFile)) (\<lambda>result.
              if result \<noteq> [] \<and> startsWith result ''SUCCESS:''
              then
                let parts = split result CHR '':'';
                    folderName = nth_or parts 1 ''Notes'';
                    usedDefaultFolder = (2 < length parts \<and> parts ! 2 = ''true'')
                in io_return \<lparr>cn_success = True,
                     cn_note = Some \<lparr>note_name = title, note_content = formattedBody,
                                     note_creationDate = None, note_modificationDate = None\<rparr>,
                     cn_message = None,
                     cn_folderName = Some folderName,
                     cn_usedDefaultFolder = Some usedDefaultFolder\<rparr>
              else io_return \<lparr>cn_success = False, cn_note = None,
                     cn_message = Some (''Failed to create note: '' @
                        (if result \<noteq> [] then result else ''No result from AppleScript'')),
                     cn_folderName = None, cn_usedDefaultFolder = None\<rparr>))))
       (\<lambda>error. io_return \<lparr>cn_success = False, cn_note = None,
                     cn_message = Some (''Failed to create note: '' @ error),
                     cn_folderName = None, cn_usedDefaultFolder = None\<rparr>)"

text \<open>
  The script \<^verbatim>\<open>createNote\<close> dispatches (the template at \<^verbatim>\<open>notes.ts\<close>, lines 245 to 298)
  decides by itself where the note goes. One run of it is described by what the Notes
  application did with each of its commands:
  \<^item> the first \<^verbatim>\<open>try\<close> block searches the folders for the requested name; it ends with
    \<^verbatim>\<open>folderFound\<close> set or not, or raises before it has found the folder, which the
    script ignores;
  \<^item> the comparisons \<^verbatim>\<open>"${folderName}" is "Claude"\<close> and \<^verbatim>\<open>is "Test-Claude"\<close> are
    AppleScript's own text comparison;
  \<^item> the second \<^verbatim>\<open>try\<close> block makes the folder and searches again; when it raises, the
    script sets \<^verbatim>\<open>actualFolderName\<close> to \<^verbatim>\<open>Notes\<close>;
  \<^item> reading the temporary file and making the note may each raise, and then the whole
    script raises.
\<close>

record notes_run =
  first_search :: "bool option"
  text_is :: "string \<Rightarrow> string \<Rightarrow> bool"
  second_search :: "bool option"
  reads_file :: bool
  makes_note :: bool
  error_text :: string

text \<open>The variables \<^verbatim>\<open>folderFound\<close> and \<^verbatim>\<open>actualFolderName\<close> after the two blocks.\<close>

definition script_folder :: "notes_run \<Rightarrow> string \<Rightarrow> bool \<times> string" where
  "script_folder run folderName =
     (let folderFound = (case first_search run of None \<Rightarrow> False | Some found \<Rightarrow> found) in
      if \<not> folderFound \<and>
         (text_is run folderName ''Claude'' \<or> text_is run folderName ''Test-Claude'')
      then (case second_search run of
              None \<Rightarrow> (False, ''Notes'')
            | Some found \<Rightarrow> (found, folderName))
      else (folderFound, folderName))"

text \<open>What the script answers: it raises, or returns one of its two \<^verbatim>\<open>SUCCESS\<close> strings.\<close>

definition create_note_script :: "notes_run \<Rightarrow> string \<Rightarrow> reply" where
  "create_note_script run folderName =
     (case script_folder run folderName of
        (folderFound, actualFolderName) \<Rightarrow>
          if \<not> reads_file run \<or> \<not> makes_note run then Throws (error_text run)
          else if folderFound then Returns (''SUCCESS:'' @ actualFolderName @ '':false'')
          else Returns ''SUCCESS:Notes:true'')"

definition getNotesFromFolder :: "world \<Rightarrow> string \<Rightarrow> FolderNotesResult io" where
  "getNotesFromFolder w folderName =
     io_catch
       (io_bind (requestNotesAccess w) (\<lambda>accessResult.
          if \<not> hasAccess accessResult
          then io_return \<lparr>fn_success = False, fn_notes = None,
                          fn_message = Some (message accessResult)\<rparr>
          else io_bind (runAppleScript w (FolderNotesScript folderName)) (\<lambda>result.
            if result \<noteq> [] \<and> startsWith result ''ERROR:''
            then io_return \<lparr>fn_success = False, fn_notes = None,
                            fn_message = Some (replace result ''ERROR:'' [])\<rparr>
            else if result \<noteq> [] \<and> startsWith result ''SUCCESS:''
            then io_return \<lparr>fn_success = True, fn_notes = Some [], fn_message = None\<rparr>
            else io_return \<lparr>fn_success = True, fn_notes = Some [], fn_message = None\<rparr>)))
       (\<lambda>error. io_return \<lparr>fn_success = False, fn_notes = None,
                     fn_message = Some (''Failed to get notes from folder: '' @ error)\<rparr>)"

text \<open>\<^verbatim>\<open>result.success && result.notes\<close>: an array, even an empty one, is truthy.\<close>

definition limited :: "FolderNotesResult \<Rightarrow> int \<Rightarrow> FolderNotesResult" where
  "limited result limit =
     (case fn_notes result of
        Some notes \<Rightarrow>
          if fn_success result
          then \<lparr>fn_success = True,
                fn_notes = Some (slice0 notes (min limit (int (length notes)))),
                fn_message = None\<rparr>
          else result
      | None \<Rightarrow> result)"

definition getRecentNotesFromFolder ::
  "world \<Rightarrow> string \<Rightarrow> int option \<Rightarrow> FolderNotesResult io" where
  "getRecentNotesFromFolder w folderName limit =
     io_catch
       (io_bind (getNotesFromFolder w folderName) (\<lambda>result.
          io_return (limited result (default_to limit 5))))
       (\<lambda>error. io_return \<lparr>fn_success = False, fn_notes = None,
                     fn_message = Some (''Failed to get recent notes from folder: '' @ error)\<rparr>)"

definition getNotesByDateRange ::
  "world \<Rightarrow> string \<Rightarrow> string option \<Rightarrow> string option \<Rightarrow> int option \<Rightarrow> FolderNotesResult io" where
  "getNotesByDateRange w folderName fromDate toDate limit =
     io_catch
       (io_bind (getNotesFromFolder w folderName) (\<lambda>result.
          io_return (limited result (default_to limit 20))))
       (\<lambda>error. io_return \<lparr>fn_success = False, fn_notes = None,
                     fn_message = Some (''Failed to get notes by date range: '' @ error)\<rparr>)"

section \<open>Calendar\<close>

record CalendarEvent =
  ce_id :: string
  ce_title :: string
  ce_location :: "string option"
  ce_notes :: "string option"
  ce_startDate :: "string option"
  ce_endDate :: "string option"
  ce_calendarName :: string
  ce_isAllDay :: bool
  ce_url :: "string option"

record CalendarResult =
  cal_success :: bool
  cal_message :: string
  cal_eventId :: "string option"

definition checkCalendarAccess :: "world \<Rightarrow> bool io" where
  "checkCalendarAccess w =
     io_catch (io_bind (runAppleScript w CalendarProbe) (\<lambda>_. io_return True))
              (\<lambda>error. io_return False)"

definition calendar_instructions :: string where
  "calendar_instructions =
     ''Calendar access is required but not granted. Please:'' @ [CHR 0x0A] @
     ''1. Open System Settings > Privacy & Security > Automation'' @ [CHR 0x0A] @
     ''2. Find your terminal/app in the list and enable '' @ [CHR 0x27] @ ''Calendar'' @
       [CHR 0x27, CHR 0x0A] @
     ''3. Alternatively, open System Settings > Privacy & Security > Calendars'' @ [CHR 0x0A] @
     ''4. Add your terminal/app to the allowed applications'' @ [CHR 0x0A] @
     ''5. Restart your terminal and try again''"

definition requestCalendarAccess :: "world \<Rightarrow> AccessCheckResult io" where
  "requestCalendarAccess w =
     io_catch
       (io_bind (checkCalendarAccess w) (\<lambda>granted.
          if granted
          then io_return \<lparr>hasAccess = True, message = ''Calendar access is already granted.''\<rparr>
          else io_return \<lparr>hasAccess = False, message = calendar_instructions\<rparr>))
       (\<lambda>error. io_return \<lparr>hasAccess = False,
                             message = ''Error checking Calendar access: '' @ error\<rparr>)"

text \<open>
  \<^verbatim>\<open>Array.isArray(result) ? result : []\<close> is the empty array for the string the script
  resolved to, so the \<^verbatim>\<open>map\<close> over it builds no event.
\<close>

definition getEvents ::
  "world \<Rightarrow> int option \<Rightarrow> string option \<Rightarrow> string option \<Rightarrow> CalendarEvent list io" where
  "getEvents w limit fromDate toDate =
     io_catch
       (io_bind (requestCalendarAccess w) (\<lambda>accessResult.
          if \<not> hasAccess accessResult then io_throw (message accessResult)
          else
            let startDate = truthy_or fromDate (iso_today w);
                endDate = truthy_or toDate (iso_after_days w 7) in
            io_bind (runAppleScript w (GetEventsScript startDate endDate)) (\<lambda>result.
              io_return [])))
       (\<lambda>error. io_return [])"

definition searchEvents ::
  "world \<Rightarrow> string \<Rightarrow> int option \<Rightarrow> string option \<Rightarrow> string option \<Rightarrow> CalendarEvent list io" where
  "searchEvents w searchText limit fromDate toDate =
     io_catch
       (io_bind (requestCalendarAccess w) (\<lambda>accessResult.
          if \<not> hasAccess accessResult then io_throw (message accessResult)
          else
            let startDate = truthy_or fromDate (iso_today w);
                endDate = truthy_or toDate (iso_after_days w 30) in
            io_bind (runAppleScript w SearchEventsScript) (\<lambda>result.
              io_return [])))
       (\<lambda>error. io_return [])"

definition createEvent ::
  "world \<Rightarrow> string \<Rightarrow> string \<Rightarrow> string \<Rightarrow> string option \<Rightarrow> string option \<Rightarrow> bool option \<Rightarrow>
   string option \<Rightarrow> CalendarResult io" where
  "createEvent w title startDate endDate location notes isAllDay calendarName =
     io_catch
       (io_bind (requestCalendarAccess w) (\<lambda>accessResult.
          if \<not> hasAccess accessResult
          then io_return \<lparr>cal_success = False, cal_message = message accessResult,
                          cal_eventId = None\<rparr>
          else if trim title = []
          then io_return \<lparr>cal_success = False, cal_message = ''Event title cannot be empty'',
                          cal_eventId = None\<rparr>
          else if startDate = [] \<or> endDate = []
          then io_return \<lparr>cal_success = False,
                          cal_message = ''Start date and end date are required'',
                          cal_eventId = None\<rparr>
          else
            (case (parse_date w startDate, parse_date w endDate) of
               (Some start, Some end) \<Rightarrow>
                 if end \<le> start
                 then io_return \<lparr>cal_success = False,
                                 cal_message = ''End date must be after start date'',
                                 cal_eventId = None\<rparr>
                 else
                   let targetCalendar = truthy_or calendarName ''Calendar'' in
                   io_bind (runAppleScript w
                              (CreateEventScript (locale_string w start) (locale_string w end)
                                 targetCalendar (escape_quotes title) (default_to isAllDay False)
                                 (truthy_or location []) (truthy_or notes []))) (\<lambda>eventId.
                     io_return \<lparr>cal_success = True,
                       cal_message = ''Event '' @ [CHR 0x22] @ title @ [CHR 0x22] @
                                     '' created successfully.'',
                       cal_eventId = Some eventId\<rparr>)
             | _ \<Rightarrow>
                 io_return \<lparr>cal_success = False,
                   cal_message =
                     ''Invalid date format. Please use ISO format (YYYY-MM-DDTHH:mm:ss.sssZ)'',
                   cal_eventId = None\<rparr>)))
       (\<lambda>error. io_return \<lparr>cal_success = False,
                     cal_message = ''Error creating event: '' @ error, cal_eventId = None\<rparr>)"

definition openEvent :: "world \<Rightarrow> string \<Rightarrow> CalendarResult io" where
  "openEvent w eventId =
     io_catch
       (io_bind (requestCalendarAccess w) (\<lambda>accessResult.
          if \<not> hasAccess accessResult
          then io_return \<lparr>cal_success = False, cal_message = message accessResult,
                          cal_eventId = None\<rparr>
          else io_bind (runAppleScript w OpenEventScript) (\<lambda>result.
            if str_includes eventId ''non-existent'' \<or> str_includes eventId ''12345''
            then io_return \<lparr>cal_success = False,
                            cal_message = ''Event not found (test scenario)'',
                            cal_eventId = None\<rparr>
            else io_return \<lparr>cal_success = True, cal_message = result,
                            cal_eventId = None\<rparr>)))
       (\<lambda>error. io_return \<lparr>cal_success = False,
                     cal_message = ''Error opening event: '' @ error, cal_eventId = None\<rparr>)"

section \<open>Reminders\<close>

record ReminderList =
  rl_name :: string
  rl_id :: string

text \<open>Of a reminder's optional fields none is ever set by this module.\<close>

record Reminder =
  rem_name :: string
  rem_id :: string
  rem_body :: string
  rem_completed :: bool
  rem_dueDate :: "string option"
  rem_listName :: string

record OpenReminderResult =
  or_success :: bool
  or_message :: string
  or_reminder :: "Reminder option"

definition checkRemindersAccess :: "world \<Rightarrow> bool io" where
  "checkRemindersAccess w =
     io_catch (io_bind (runAppleScript w RemindersProbe) (\<lambda>_. io_return True))
              (\<lambda>error. io_return False)"

definition reminders_instructions :: string where
  "reminders_instructions =
     ''Reminders access is required but not granted. Please:'' @ [CHR 0x0A] @
     ''1. Open System Settings > Privacy & Security > Automation'' @ [CHR 0x0A] @
     ''2. Find your terminal/app in the list and enable '' @ [CHR 0x27] @ ''Reminders'' @
       [CHR 0x27, CHR 0x0A] @
     ''3. Restart your terminal and try again'' @ [CHR 0x0A] @
     ''4. If the option is not available, run this command again to trigger the permission dialog''"

definition requestRemindersAccess :: "world \<Rightarrow> AccessCheckResult io" where
  "requestRemindersAccess w =
     io_catch
       (io_bind (checkRemindersAccess w) (\<lambda>granted.
          if granted
          then io_return \<lparr>hasAccess = True, message = ''Reminders access is already granted.''\<rparr>
          else io_return \<lparr>hasAccess = False, message = reminders_instructions\<rparr>))
       (\<lambda>error. io_return \<lparr>hasAccess = False,
                             message = ''Error checking Reminders access: '' @ error\<rparr>)"

definition list_of :: "string \<Rightarrow> ReminderList" where
  "list_of listData = \<lparr>rl_name = ''Untitled List'', rl_id = ''unknown-id''\<rparr>"

definition getAllLists :: "world \<Rightarrow> ReminderList list io" where
  "getAllLists w =
     io_catch
       (io_bind (requestRemindersAccess w) (\<lambda>accessResult.
          if \<not> hasAccess accessResult then io_throw (message accessResult)
          else io_bind (runAppleScript w AllListsScript) (\<lambda>result.
                 io_return (map list_of (resultArray result)))))
       (\<lambda>error. io_return [])"

definition getAllReminders :: "world \<Rightarrow> string option \<Rightarrow> Reminder list io" where
  "getAllReminders w listName =
     io_catch
       (io_bind (requestRemindersAccess w) (\<lambda>accessResult.
          if \<not> hasAccess accessResult then io_throw (message accessResult)
          else io_bind (runAppleScript w AllRemindersScript) (\<lambda>result.
                 if result \<noteq> [] \<and> str_includes result ''SUCCESS'' then io_return []
                 else io_return [])))
       (\<lambda>error. io_return [])"

definition searchReminders :: "world \<Rightarrow> string \<Rightarrow> Reminder list io" where
  "searchReminders w searchText =
     io_catch
       (io_bind (requestRemindersAccess w) (\<lambda>accessResult.
          if \<not> hasAccess accessResult then io_throw (message accessResult)
          else if blank searchText then io_return []
          else io_bind (runAppleScript w SearchRemindersScript) (\<lambda>result. io_return [])))
       (\<lambda>error. io_return [])"

definition createReminder ::
  "world \<Rightarrow> string \<Rightarrow> string option \<Rightarrow> string option \<Rightarrow> string option \<Rightarrow> Reminder io" where
  "createReminder w name listName notes dueDate =
     io_catch
       (io_bind (requestRemindersAccess w) (\<lambda>accessResult.
          if \<not> hasAccess accessResult then io_throw (message accessResult)
          else if blank name then io_throw ''Reminder name cannot be empty''
          else
            let cleanName = escape_quotes name;
                cleanListName = escape_quotes (default_to listName ''Reminders'');
                cleanNotes = escape_quotes (truthy_or notes []) in
            io_bind (runAppleScript w (CreateReminderScript cleanName)) (\<lambda>result.
              if result \<noteq> [] \<and> startsWith result ''SUCCESS:''
              then
                let actualListName = replace result ''SUCCESS:'' [] in
                io_return \<lparr>rem_name = name, rem_id = ''created-reminder-id'',
                            rem_body = truthy_or notes [], rem_completed = False,
                            rem_dueDate = (if truthy_or dueDate [] = [] then None else dueDate),
                            rem_listName = actualListName\<rparr>
              else io_throw (''Failed to create reminder: '' @ result))))
       (\<lambda>error. io_throw (''Failed to create reminder: '' @ error))"

definition openReminder :: "world \<Rightarrow> string \<Rightarrow> OpenReminderResult io" where
  "openReminder w searchText =
     io_catch
       (io_bind (requestRemindersAccess w) (\<lambda>accessResult.
          if \<not> hasAccess accessResult
          then io_return \<lparr>or_success = False, or_message = message accessResult,
                          or_reminder = None\<rparr>
          else io_bind (searchReminders w searchText) (\<lambda>matchingReminders.
            if length matchingReminders = 0
            then io_return \<lparr>or_success = False, or_message = ''No matching reminders found'',
                            or_reminder = None\<rparr>
            else io_bind (runAppleScript w ActivateRemindersScript) (\<lambda>result.
              if result = ''SUCCESS''
              then io_return \<lparr>or_success = True, or_message = ''Reminders app opened'',
                              or_reminder = Some (hd matchingReminders)\<rparr>
              else io_return \<lparr>or_success = False,
                              or_message = ''Failed to open Reminders app'',
                              or_reminder = None\<rparr>))))
       (\<lambda>error. io_return \<lparr>or_success = False,
                     or_message = ''Failed to open reminder: '' @ error, or_reminder = None\<rparr>)"

definition getRemindersFromListById ::
  "world \<Rightarrow> string \<Rightarrow> string list option \<Rightarrow> Reminder list io" where
  "getRemindersFromListById w listId props =
     io_catch
       (io_bind (requestRemindersAccess w) (\<lambda>accessResult.
          if \<not> hasAccess accessResult then io_throw (message accessResult)
          else io_bind (runAppleScript w RemindersByIdScript) (\<lambda>result. io_return [])))
       (\<lambda>error. io_return [])"

section \<open>The exported operations\<close>

text \<open>
  Each module exports its functions in one object (\<^verbatim>\<open>export default { ... }\<close>). A
  \<open>call\<close> is one exported operation together with its arguments, the access probes
  apart; \<open>invoke\<close> runs it and wraps what it returns.
\<close>

datatype app = Mail | Notes | Calendar | Reminders

datatype call =
    GetUnreadMails "int option"
  | SearchMails string "int option"
  | SendMail string string string "string option" "string option"
  | GetMailboxes
  | GetAccounts
  | GetMailboxesForAccount string
  | GetLatestMails string "int option"
  | GetAllNotes
  | FindNote string
  | CreateNote string string "string option"
  | GetNotesFromFolder string
  | GetRecentNotesFromFolder string "int option"
  | GetNotesByDateRange string "string option" "string option" "int option"
  | SearchEvents string "int option" "string option" "string option"
  | OpenEvent string
  | GetEvents "int option" "string option" "string option"
  | CreateEvent string string string "string option" "string option" "bool option" "string option"
  | GetAllLists
  | GetAllReminders "string option"
  | SearchReminders string
  | CreateReminder string "string option" "string option" "string option"
  | OpenReminder string
  | GetRemindersFromListById string "string list option"

datatype outcome =
    EmailList "EmailMessage list"
  | Sent string
  | NameList "string list"
  | NoteList "Note list"
  | NoteCreated CreateNoteResult
  | FolderNotes FolderNotesResult
  | EventList "CalendarEvent list"
  | EventStatus CalendarResult
  | ListList "ReminderList list"
  | ReminderList "Reminder list"
  | ReminderCreated Reminder
  | ReminderOpened OpenReminderResult

definition io_map :: "('a \<Rightarrow> 'b) \<Rightarrow> 'a io \<Rightarrow> 'b io" where
  "io_map f m = io_bind m (\<lambda>x. io_return (f x))"

fun app_of :: "call \<Rightarrow> app" where
  "app_of (GetUnreadMails _) = Mail"
| "app_of (SearchMails _ _) = Mail"
| "app_of (SendMail _ _ _ _ _) = Mail"
| "app_of GetMailboxes = Mail"
| "app_of GetAccounts = Mail"
| "app_of (GetMailboxesForAccount _) = Mail"
| "app_of (GetLatestMails _ _) = Mail"
| "app_of GetAllNotes = Notes"
| "app_of (FindNote _) = Notes"
| "app_of (CreateNote _ _ _) = Notes"
| "app_of (GetNotesFromFolder _) = Notes"
| "app_of (GetRecentNotesFromFolder _ _) = Notes"
| "app_of (GetNotesByDateRange _ _ _ _) = Notes"
| "app_of (SearchEvents _ _ _ _) = Calendar"
| "app_of (OpenEvent _) = Calendar"
| "app_of (GetEvents _ _ _) = Calendar"
| "app_of (CreateEvent _ _ _ _ _ _ _) = Calendar"
| "app_of GetAllLists = Reminders"
| "app_of (GetAllReminders _) = Reminders"
| "app_of (SearchReminders _) = Reminders"
| "app_of (CreateReminder _ _ _ _) = Reminders"
| "app_of (OpenReminder _) = Reminders"
| "app_of (GetRemindersFromListById _ _) = Reminders"

fun invoke :: "world \<Rightarrow> call \<Rightarrow> outcome io" where
  "invoke w (GetUnreadMails limit) = io_map EmailList (getUnreadMails w limit)"
| "invoke w (SearchMails searchTerm limit) = io_map EmailList (searchMails w searchTerm limit)"
| "invoke w (SendMail to subject body cc bcc) = io_map Sent (sendMail w to subject body cc bcc)"
| "invoke w GetMailboxes = io_map NameList (getMailboxes w)"
| "invoke w GetAccounts = io_map NameList (getAccounts w)"
| "invoke w (GetMailboxesForAccount accountName) =
     io_map NameList (getMailboxesForAccount w accountName)"
| "invoke w (GetLatestMails account limit) = io_map EmailList (getLatestMails w account limit)"
| "invoke w GetAllNotes = io_map NoteList (getAllNotes w)"
| "invoke w (FindNote searchText) = io_map NoteList (findNote w searchText)"
| "invoke w (CreateNote title body folderName) =
     io_map NoteCreated (createNote w title body folderName)"
| "invoke w (GetNotesFromFolder folderName) = io_map FolderNotes (getNotesFromFolder w folderName)"
| "invoke w (GetRecentNotesFromFolder folderName limit) =
     io_map FolderNotes (getRecentNotesFromFolder w folderName limit)"
| "invoke w (GetNotesByDateRange folderName fromDate toDate limit) =
     io_map FolderNotes (getNotesByDateRange w folderName fromDate toDate limit)"
| "invoke w (SearchEvents searchText limit fromDate toDate) =
     io_map EventList (searchEvents w searchText limit fromDate toDate)"
| "invoke w (OpenEvent eventId) = io_map EventStatus (openEvent w eventId)"
| "invoke w (GetEvents limit fromDate toDate) = io_map EventList (getEvents w limit fromDate toDate)"
| "invoke w (CreateEvent title startDate endDate location notes isAllDay calendarName) =
     io_map EventStatus
       (createEvent w title startDate endDate location notes isAllDay calendarName)"
| "invoke w GetAllLists = io_map ListList (getAllLists w)"
| "invoke w (GetAllReminders listName) = io_map ReminderList (getAllReminders w listName)"
| "invoke w (SearchReminders searchText) = io_map ReminderList (searchReminders w searchText)"
| "invoke w (CreateReminder name listName notes dueDate) =
     io_map ReminderCreated (createReminder w name listName notes dueDate)"
| "invoke w (OpenReminder searchText) = io_map ReminderOpened (openReminder w searchText)"
| "invoke w (GetRemindersFromListById listId props) =
     io_map ReminderList (getRemindersFromListById w listId props)"

text \<open>The probe script of each application and the fixed text its probe answers on refusal.\<close>

fun probe :: "app \<Rightarrow> script" where
  "probe Mail = MailProbe"
| "probe Notes = NotesProbe"
| "probe Calendar = CalendarProbe"
| "probe Reminders = RemindersProbe"

fun requestAccess :: "world \<Rightarrow> app \<Rightarrow> AccessCheckResult io" where
  "requestAccess w Mail = requestMailAccess w"
| "requestAccess w Notes = requestNotesAccess w"
| "requestAccess w Calendar = requestCalendarAccess w"
| "requestAccess w Reminders = requestRemindersAccess w"

fun app_name :: "app \<Rightarrow> string" where
  "app_name Mail = ''Mail''"
| "app_name Notes = ''Notes''"
| "app_name Calendar = ''Calendar''"
| "app_name Reminders = ''Reminders''"

section \<open>Phone numbers\<close>

definition is_digit :: "char \<Rightarrow> bool" where
  "is_digit c = (c \<in> set ''0123456789'')"

text \<open>
  Modelled from the spec: the contact resolver (\<^verbatim>\<open>utils/contacts\<close>) and its phone
  normalisation are not among the source files. The spec's data model and glossary define
  \<open>canonicalDigits\<close> as the digits-only form of a phone number, punctuation removed;
  a country code in front is tolerated afterwards, by the suffix comparison of two
  canonical forms.
\<close>

definition normalize :: "string \<Rightarrow> string" where
  "normalize x = filter is_digit x"

section \<open>Outcomes as the caller sees them\<close>

text \<open>
  What reaches the caller of an exported operation is a thrown error (\<open>Inl\<close>) or a
  returned value. A returned collection is empty or not; a returned status record says
  \<^verbatim>\<open>success: false\<close> or \<^verbatim>\<open>success: true\<close>.
\<close>

fun empty_result :: "string + outcome \<Rightarrow> bool" where
  "empty_result (Inr (EmailList xs)) = (xs = [])"
| "empty_result (Inr (NameList xs)) = (xs = [])"
| "empty_result (Inr (NoteList xs)) = (xs = [])"
| "empty_result (Inr (EventList xs)) = (xs = [])"
| "empty_result (Inr (ListList xs)) = (xs = [])"
| "empty_result (Inr (ReminderList xs)) = (xs = [])"
| "empty_result _ = False"

text \<open>The failure message an outcome carries, if it is a failure.\<close>

fun failure_message :: "string + outcome \<Rightarrow> string option" where
  "failure_message (Inl e) = Some e"
| "failure_message (Inr (NoteCreated r)) = (if cn_success r then None else cn_message r)"
| "failure_message (Inr (FolderNotes r)) = (if fn_success r then None else fn_message r)"
| "failure_message (Inr (EventStatus r)) = (if cal_success r then None else Some (cal_message r))"
| "failure_message (Inr (ReminderOpened r)) =
     (if or_success r then None else Some (or_message r))"
| "failure_message (Inr _) = None"

definition failure :: "string + outcome \<Rightarrow> bool" where
  "failure x = (failure_message x \<noteq> None)"



text \<open>
  The read and search operations: \<^verbatim>\<open>getUnreadMails\<close>, \<^verbatim>\<open>searchMails\<close>, \<^verbatim>\<open>getAllNotes\<close>,
  \<^verbatim>\<open>findNote\<close>, \<^verbatim>\<open>getEvents\<close>, \<^verbatim>\<open>searchEvents\<close>, \<^verbatim>\<open>getAllLists\<close>,
  \<^verbatim>\<open>getAllReminders\<close> and \<^verbatim>\<open>searchReminders\<close>.
\<close>

fun read_operation :: "call \<Rightarrow> bool" where
  "read_operation (GetUnreadMails _) = True"
| "read_operation (SearchMails _ _) = True"
| "read_operation GetAllNotes = True"
| "read_operation (FindNote _) = True"
| "read_operation (GetEvents _ _ _) = True"
| "read_operation (SearchEvents _ _ _ _) = True"
| "read_operation GetAllLists = True"
| "read_operation (GetAllReminders _) = True"
| "read_operation (SearchReminders _) = True"
| "read_operation _ = False"

text \<open>
  The textual arguments an operation tests for blankness, and whether one of them is
  blank in a call.
\<close>

fun blank_argument :: "call \<Rightarrow> bool" where
  "blank_argument (SearchMails searchTerm _) = blank searchTerm"
| "blank_argument (SendMail to subject body _ _) = (blank to \<or> blank subject \<or> blank body)"
| "blank_argument (GetMailboxesForAccount accountName) = blank accountName"
| "blank_argument (FindNote searchText) = blank searchText"
| "blank_argument (CreateNote title _ _) = blank title"
| "blank_argument (CreateEvent title _ _ _ _ _ _) = (trim title = [])"
| "blank_argument (SearchReminders searchText) = blank searchText"
| "blank_argument (CreateReminder name _ _ _) = blank name"
| "blank_argument _ = False"

text \<open>The log entries a call added to the log \<open>tr\<close> it started from.\<close>

definition dispatched :: "world \<Rightarrow> call \<Rightarrow> event list \<Rightarrow> event list" where
  "dispatched w c tr = drop (length tr) (snd (invoke w c tr))"

text \<open>
  Two concrete worlds for evaluating the operations: one in which the native side
  answers every script from a fixed table, the file write succeeds and no date parses.
\<close>

definition answering :: "(script \<Rightarrow> reply) \<Rightarrow> world" where
  "answering f =
     \<lparr>native = (\<lambda>tr s. f s), write_error = (\<lambda>p c. None), now = 0,
      date_string = ''Thu Jan 01 1970 00:00:00 GMT+0000'', iso_today = ''1970-01-01'',
      iso_after_days = (\<lambda>n. ''1970-01-08''), parse_date = (\<lambda>s. None),
      locale_string = (\<lambda>t. [])\<rparr>"

definition refusing :: world where
  "refusing = answering (\<lambda>s. Throws ''Not authorized to send Apple events'')"

definition granting :: "string \<Rightarrow> world" where
  "granting v = answering (\<lambda>s. Returns v)"

section \<open>How the operations run\<close>

text \<open>
  The access probe of each module dispatches exactly its probe script and never throws:
  it answers \<^verbatim>\<open>hasAccess: true\<close> when the script resolves and the fixed instructions
  when the script is rejected.
\<close>

lemmas io_defs = io_return_def io_throw_def io_bind_def io_catch_def io_map_def
  runAppleScript_def writeFileSync_def

lemma requestMailAccess_Throws:
  "native w tr MailProbe = Throws e \<Longrightarrow>
   requestMailAccess w tr =
     (Inr \<lparr>hasAccess = False, message = mail_instructions\<rparr>, tr @ [(MailProbe, Throws e)])"
  by (simp add: requestMailAccess_def checkMailAccess_def io_defs)

lemma requestMailAccess_Returns:
  "native w tr MailProbe = Returns v \<Longrightarrow>
   requestMailAccess w tr =
     (Inr \<lparr>hasAccess = True, message = ''Mail access is already granted.''\<rparr>,
      tr @ [(MailProbe, Returns v)])"
  by (simp add: requestMailAccess_def checkMailAccess_def io_defs)

lemma requestNotesAccess_Throws:
  "native w tr NotesProbe = Throws e \<Longrightarrow>
   requestNotesAccess w tr =
     (Inr \<lparr>hasAccess = False, message = notes_instructions\<rparr>, tr @ [(NotesProbe, Throws e)])"
  by (simp add: requestNotesAccess_def checkNotesAccess_def io_defs)

lemma requestNotesAccess_Returns:
  "native w tr NotesProbe = Returns v \<Longrightarrow>
   requestNotesAccess w tr =
     (Inr \<lparr>hasAccess = True, message = ''Notes access is already granted.''\<rparr>,
      tr @ [(NotesProbe, Returns v)])"
  by (simp add: requestNotesAccess_def checkNotesAccess_def io_defs)

lemma requestCalendarAccess_Throws:
  "native w tr CalendarProbe = Throws e \<Longrightarrow>
   requestCalendarAccess w tr =
     (Inr \<lparr>hasAccess = False, message = calendar_instructions\<rparr>,
      tr @ [(CalendarProbe, Throws e)])"
  by (simp add: requestCalendarAccess_def checkCalendarAccess_def io_defs)

lemma requestCalendarAccess_Returns:
  "native w tr CalendarProbe = Returns v \<Longrightarrow>
   requestCalendarAccess w tr =
     (Inr \<lparr>hasAccess = True, message = ''Calendar access is already granted.''\<rparr>,
      tr @ [(CalendarProbe, Returns v)])"
  by (simp add: requestCalendarAccess_def checkCalendarAccess_def io_defs)

lemma requestRemindersAccess_Throws:
  "native w tr RemindersProbe = Throws e \<Longrightarrow>
   requestRemindersAccess w tr =
     (Inr \<lparr>hasAccess = False, message = reminders_instructions\<rparr>,
      tr @ [(RemindersProbe, Throws e)])"
  by (simp add: requestRemindersAccess_def checkRemindersAccess_def io_defs)

lemma requestRemindersAccess_Returns:
  "native w tr RemindersProbe = Returns v \<Longrightarrow>
   requestRemindersAccess w tr =
     (Inr \<lparr>hasAccess = True, message = ''Reminders access is already granted.''\<rparr>,
      tr @ [(RemindersProbe, Returns v)])"
  by (simp add: requestRemindersAccess_def checkRemindersAccess_def io_defs)

lemmas access_runs =
  requestMailAccess_Throws requestMailAccess_Returns
  requestNotesAccess_Throws requestNotesAccess_Returns
  requestCalendarAccess_Throws requestCalendarAccess_Returns
  requestRemindersAccess_Throws requestRemindersAccess_Returns

lemma requestAccess_Throws:
  "native w tr (probe a) = Throws e \<Longrightarrow>
   \<exists>r. requestAccess w a tr = (Inr r, tr @ [(probe a, Throws e)]) \<and> \<not> hasAccess r \<and>
       message r \<in> set [mail_instructions, notes_instructions, calendar_instructions,
                        reminders_instructions]"
  by (cases a) (simp_all add: access_runs)


lemma blank_iff: "blank s = (\<forall>c\<in>set s. is_space c)"
proof -
  have a: "(\<forall>c\<in>set (dropWhile is_space s). is_space c) = (dropWhile is_space s = [])"
    using hd_dropWhile [of is_space s]
    by (cases "dropWhile is_space s") (auto dest: set_dropWhileD)
  have b: "(dropWhile is_space s = []) = (\<forall>c\<in>set s. is_space c)"
    by (simp add: dropWhile_eq_Nil_conv)
  have "(trim s = []) = (\<forall>c\<in>set (dropWhile is_space s). is_space c)"
    by (simp add: trim_def dropWhile_eq_Nil_conv)
  also have "\<dots> = (dropWhile is_space s = [])"
    by (rule a)
  also have "\<dots> = (\<forall>c\<in>set s. is_space c)"
    by (rule b)
  finally show ?thesis
    by (auto simp add: blank_def)
qed




lemma instructions_name_app:
  "str_includes mail_instructions ''Mail''"
  "str_includes notes_instructions ''Notes''"
  "str_includes calendar_instructions ''Calendar''"
  "str_includes reminders_instructions ''Reminders''"
  by (simp_all add: mail_instructions_def notes_instructions_def calendar_instructions_def
        reminders_instructions_def startsWith_def)

lemma instructions_marker:
  "str_includes mail_instructions ''access''"
  "str_includes notes_instructions ''access''"
  "str_includes calendar_instructions ''access''"
  "str_includes reminders_instructions ''access''"
  by (simp_all add: mail_instructions_def notes_instructions_def calendar_instructions_def
        reminders_instructions_def startsWith_def)

lemma instructions_nonempty:
  "mail_instructions \<noteq> []" "notes_instructions \<noteq> []"
  "calendar_instructions \<noteq> []" "reminders_instructions \<noteq> []"
  by (simp_all add: mail_instructions_def notes_instructions_def calendar_instructions_def
        reminders_instructions_def)

text \<open>
  \<^verbatim>\<open>searchReminders\<close> returns the empty list whatever happens, so \<^verbatim>\<open>openReminder\<close>
  never finds a reminder to open.
\<close>

lemma searchReminders_run: "\<exists>rest. searchReminders w t tr = (Inr [], tr @ rest)"
  by (cases "native w tr RemindersProbe")
     (auto simp add: searchReminders_def access_runs io_defs split: reply.splits)

lemma openReminder_granted:
  assumes "native w tr RemindersProbe = Returns v"
  shows "\<exists>rest. openReminder w t tr =
           (Inr \<lparr>or_success = False, or_message = ''No matching reminders found'',
                 or_reminder = None\<rparr>,
            tr @ (RemindersProbe, Returns v) # rest)"
proof -
  obtain rest where
    "searchReminders w t (tr @ [(RemindersProbe, Returns v)]) =
       (Inr [], (tr @ [(RemindersProbe, Returns v)]) @ rest)"
    using searchReminders_run by blast
  then show ?thesis
    using assms
    by (simp add: openReminder_def requestRemindersAccess_Returns io_return_def io_bind_def
          io_catch_def)
qed

lemmas op_defs =
  getUnreadMails_def searchMails_def sendMail_def getMailboxes_def getAccounts_def
  getMailboxesForAccount_def getLatestMails_def
  getAllNotes_def findNote_def createNote_def getNotesFromFolder_def
  getRecentNotesFromFolder_def getNotesByDateRange_def
  searchEvents_def openEvent_def getEvents_def createEvent_def
  getAllLists_def getAllReminders_def searchReminders_def createReminder_def
  getRemindersFromListById_def

text \<open>
  What an operation makes of the string its own script resolved to, for the three
  operations that read a sentinel: the log of the call ends with the probe's answer and
  the script's answer \<open>r\<close>.
\<close>

lemma createNote_classifies:
  assumes "snd (createNote w title body folderName tr) =
             tr @ [(NotesProbe, Returns p), (s, Returns r)]"
  shows "fst (createNote w title body folderName tr) =
           (if startsWith r ''SUCCESS:''
            then Inr \<lparr>cn_success = True,
                   cn_note = Some \<lparr>note_name = title, note_content = trim body,
                                   note_creationDate = None, note_modificationDate = None\<rparr>,
                   cn_message = None,
                   cn_folderName = Some (nth_or (split r CHR '':'') 1 ''Notes''),
                   cn_usedDefaultFolder =
                     Some (2 < length (split r CHR '':'') \<and> split r CHR '':'' ! 2 = ''true'')\<rparr>
            else Inr \<lparr>cn_success = False, cn_note = None,
                   cn_message = Some (''Failed to create note: '' @
                      (if r \<noteq> [] then r else ''No result from AppleScript'')),
                   cn_folderName = None, cn_usedDefaultFolder = None\<rparr>)"
proof (cases "native w tr NotesProbe")
  case (Throws e)
  with assms show ?thesis
    by (simp add: createNote_def access_runs io_defs)
next
  case (Returns v)
  with assms show ?thesis
    by (auto simp add: createNote_def access_runs io_defs Let_def startsWith_def
          split: if_splits option.splits reply.splits)
qed

lemma getNotesFromFolder_classifies:
  assumes "snd (getNotesFromFolder w folderName tr) =
             tr @ [(NotesProbe, Returns p), (s, Returns r)]"
  shows "fst (getNotesFromFolder w folderName tr) =
           (if startsWith r ''ERROR:''
            then Inr \<lparr>fn_success = False, fn_notes = None,
                       fn_message = Some (replace r ''ERROR:'' [])\<rparr>
            else Inr \<lparr>fn_success = True, fn_notes = Some [], fn_message = None\<rparr>)"
proof (cases "native w tr NotesProbe")
  case (Throws e)
  with assms show ?thesis
    by (simp add: getNotesFromFolder_def access_runs io_defs)
next
  case (Returns v)
  with assms show ?thesis
    by (auto simp add: getNotesFromFolder_def access_runs io_defs startsWith_def
          split: if_splits reply.splits)
qed

lemma sendMail_classifies:
  assumes "snd (sendMail w to subject body cc bcc tr) =
             tr @ [(MailProbe, Returns p), (s, Returns r)]"
  shows "fst (sendMail w to subject body cc bcc tr) =
           (if r = ''SUCCESS''
            then Inr (''Email sent to '' @ to @ '' with subject '' @
                      [CHR 0x22] @ subject @ [CHR 0x22])
            else Inl ''Error sending email: Failed to send email'')"
proof (cases "native w tr MailProbe")
  case (Throws e)
  with assms show ?thesis
    by (simp add: sendMail_def access_runs io_defs)
next
  case (Returns v)
  with assms show ?thesis
    by (auto simp add: sendMail_def access_runs io_defs Let_def
          split: if_splits option.splits reply.splits)
qed

section \<open>Properties\<close>

text \<open>
  Claim C2. Every access probe returns a result, and whenever that result has
  \<^verbatim>\<open>hasAccess = false\<close> its message is non-empty, names the application and contains
  the permission marker \<^verbatim>\<open>access\<close>.
\<close>

theorem refused_probe_message:
  "\<exists>r tr'. requestAccess w a tr = (Inr r, tr') \<and>
     (\<not> hasAccess r \<longrightarrow>
        message r \<noteq> [] \<and> str_includes (message r) (app_name a) \<and>
        str_includes (message r) ''access'')"
proof (cases "native w tr (probe a)")
  case (Throws e)
  then show ?thesis
    by (cases a)
       (simp_all add: access_runs instructions_name_app instructions_marker
          instructions_nonempty)
next
  case (Returns v)
  then show ?thesis
    by (cases a) (simp_all add: access_runs)
qed

theorem refused_probe_message_witness:
  "\<exists>r tr'. requestAccess refusing Mail [] = (Inr r, tr') \<and> \<not> hasAccess r \<and>
     message r \<noteq> [] \<and> str_includes (message r) (app_name Mail) \<and>
     str_includes (message r) ''access''"
  using refused_probe_message [of refusing Mail "[]"]
  by (auto simp add: refusing_def answering_def access_runs)

text \<open>
  Claim C7. Normalising a phone number to its canonical digits is idempotent: normalising
  an already normalised string changes nothing, for every input string.
\<close>

theorem normalize_idempotent: "normalize (normalize x) = normalize x"
  by (simp add: normalize_def)

text \<open>
  Claim C4. Every exported operation dispatches the access probe of its application
  first, and when the probe reports \<^verbatim>\<open>hasAccess = false\<close> the probe is the only native
  dispatch of the call: the operation's own script is never executed.
\<close>

theorem probe_first:
  "\<exists>r rest.
     requestAccess w (app_of c) tr =
       (Inr r, tr @ [(probe (app_of c), native w tr (probe (app_of c)))]) \<and>
     snd (invoke w c tr) = tr @ (probe (app_of c), native w tr (probe (app_of c))) # rest \<and>
     (\<not> hasAccess r \<longrightarrow> rest = [])"
proof (cases "native w tr (probe (app_of c))")
  case (Throws e)
  then show ?thesis
    by (cases c) (simp_all add: op_defs openReminder_def access_runs io_defs)
next
  case (Returns v)
  show ?thesis
  proof (cases "\<exists>t. c = OpenReminder t")
    case True
    then obtain t where c: "c = OpenReminder t" by blast
    with Returns have "native w tr RemindersProbe = Returns v" by simp
    from openReminder_granted[OF this, of t] show ?thesis
      using Returns c by (auto simp add: requestRemindersAccess_Returns io_defs)
  next
    case False
    with Returns show ?thesis
      by (cases c)
         (auto simp add: op_defs access_runs io_defs Let_def
               split: reply.splits option.splits sum.splits prod.splits if_splits)
  qed
qed

theorem probe_first_witness:
  "\<exists>r. requestAccess refusing (app_of (SendMail ''a@b.c'' ''Hi'' ''Body'' None None)) [] =
         (Inr r, [(MailProbe, Throws ''Not authorized to send Apple events'')]) \<and>
       \<not> hasAccess r \<and>
       snd (invoke refusing (SendMail ''a@b.c'' ''Hi'' ''Body'' None None) []) =
         [(MailProbe, Throws ''Not authorized to send Apple events'')]"
  using probe_first [of refusing "SendMail ''a@b.c'' ''Hi'' ''Body'' None None" "[]"]
  by (auto simp add: refusing_def answering_def access_runs)




text \<open>
  Claim C3, as stated, fails: with an empty search term \<^verbatim>\<open>searchMails\<close> still dispatches
  the access probe before it returns the empty list, and \<^verbatim>\<open>searchEvents\<close> does not test
  its search text at all and dispatches its script as well.
\<close>

theorem blank_argument_counterexample:
  "blank [] \<and>
   invoke (granting []) (SearchMails [] None) [] =
     (Inr (EmailList []), [(MailProbe, Returns [])]) \<and>
   invoke (granting []) (SearchEvents [] None None None) [] =
     (Inr (EventList []), [(CalendarProbe, Returns []), (SearchEventsScript, Returns [])])"
  by (simp add: granting_def answering_def access_runs searchMails_def searchEvents_def
        io_defs blank_def)

text \<open>
  Claim C3, amended. When a textual argument that the operation tests is empty or
  whitespace-only (the search term of \<^verbatim>\<open>searchMails\<close>, \<^verbatim>\<open>findNote\<close> and
  \<^verbatim>\<open>searchReminders\<close>, the account name of \<^verbatim>\<open>getMailboxesForAccount\<close>, the title of
  \<^verbatim>\<open>createNote\<close> and \<^verbatim>\<open>createEvent\<close>, the name of \<^verbatim>\<open>createReminder\<close>, the recipient,
  subject or body of \<^verbatim>\<open>sendMail\<close>), the access probe is the only native command of the
  call, and if the probe grants access the operation returns an empty result or fails.
\<close>

theorem blank_argument_rejected:
  assumes "blank_argument c"
  shows "snd (invoke w c tr) = tr @ [(probe (app_of c), native w tr (probe (app_of c)))] \<and>
         ((\<exists>v. native w tr (probe (app_of c)) = Returns v) \<longrightarrow>
            empty_result (fst (invoke w c tr)) \<or> failure (fst (invoke w c tr)))"
proof (cases "native w tr (probe (app_of c))")
  case (Throws e)
  then show ?thesis
    by (cases c) (simp_all add: op_defs openReminder_def access_runs io_defs)
next
  case (Returns v)
  then show ?thesis
    using assms
    by (cases c) (auto simp add: op_defs access_runs io_defs failure_def)
qed

theorem blank_argument_rejected_witness:
  "blank_argument (CreateReminder ''  '' None None None) \<and>
   native (granting ''ok'') [] (probe (app_of (CreateReminder ''  '' None None None))) =
     Returns ''ok'' \<and>
   snd (invoke (granting ''ok'') (CreateReminder ''  '' None None None) []) =
     [(RemindersProbe, Returns ''ok'')] \<and>
   failure (fst (invoke (granting ''ok'') (CreateReminder ''  '' None None None) []))"
  using blank_argument_rejected [of "CreateReminder ''  '' None None None" "granting ''ok''" "[]"]
  by (simp add: granting_def answering_def access_runs createReminder_def io_defs blank_def
        trim_def is_space_def failure_def)

text \<open>
  Claim C5, as stated, fails: \<^verbatim>\<open>getNotesFromFolder\<close> reports success for a string that
  carries neither sentinel, and \<^verbatim>\<open>sendMail\<close> throws to its caller for it.
\<close>

theorem sentinel_counterexample:
  "\<not> startsWith ''done'' ''SUCCESS:'' \<and> \<not> startsWith ''done'' ''ERROR:'' \<and>
   invoke (granting ''done'') (GetNotesFromFolder ''Claude'') [] =
     (Inr (FolderNotes \<lparr>fn_success = True, fn_notes = Some [], fn_message = None\<rparr>),
      [(NotesProbe, Returns ''done''), (FolderNotesScript ''Claude'', Returns ''done'')]) \<and>
   invoke (granting ''done'') (SendMail ''a@b.c'' ''Hi'' ''Body'' None None) [] =
     (Inl ''Error sending email: Failed to send email'',
      [(MailProbe, Returns ''done''),
       (SendMailScript (EmailBodyTmp 0) ''Hi'' ''a@b.c'' None None, Returns ''done'')])"
  by (simp add: granting_def answering_def access_runs getNotesFromFolder_def sendMail_def
        io_defs startsWith_def blank_def trim_def is_space_def escape_quotes_def
        recipient_line_def Let_def)

text \<open>
  Claim C5, amended. For every string \<open>r\<close> the native boundary returns to the
  operation's own script: \<^verbatim>\<open>createNote\<close> returns, without throwing, the success record
  (\<^verbatim>\<open>success = true\<close>, the note, the folder parsed from \<open>r\<close>) exactly when \<open>r\<close> starts with
  \<^verbatim>\<open>SUCCESS:\<close> and otherwise \<^verbatim>\<open>success = false\<close> with a message that quotes \<open>r\<close>;
  \<^verbatim>\<open>getNotesFromFolder\<close> returns, without throwing, \<^verbatim>\<open>success = false\<close> with the rest of
  \<open>r\<close> as message exactly when \<open>r\<close> starts with \<^verbatim>\<open>ERROR:\<close>, and \<^verbatim>\<open>success = true\<close> with
  an empty note list for every other string; \<^verbatim>\<open>getUnreadMails\<close> returns the empty list;
  \<^verbatim>\<open>sendMail\<close> returns its confirmation when \<open>r\<close> is exactly \<^verbatim>\<open>SUCCESS\<close> and otherwise
  throws \<^verbatim>\<open>Error sending email: Failed to send email\<close>.
\<close>

theorem sentinel_classification:
  "(snd (createNote w title body folderName tr) =
      tr @ [(NotesProbe, Returns p), (s1, Returns r)] \<longrightarrow>
    fst (createNote w title body folderName tr) =
      (if startsWith r ''SUCCESS:''
       then Inr \<lparr>cn_success = True,
              cn_note = Some \<lparr>note_name = title, note_content = trim body,
                              note_creationDate = None, note_modificationDate = None\<rparr>,
              cn_message = None,
              cn_folderName = Some (nth_or (split r CHR '':'') 1 ''Notes''),
              cn_usedDefaultFolder =
                Some (2 < length (split r CHR '':'') \<and> split r CHR '':'' ! 2 = ''true'')\<rparr>
       else Inr \<lparr>cn_success = False, cn_note = None,
              cn_message = Some (''Failed to create note: '' @
                 (if r \<noteq> [] then r else ''No result from AppleScript'')),
              cn_folderName = None, cn_usedDefaultFolder = None\<rparr>)) \<and>
   (snd (getNotesFromFolder w folder tr) =
      tr @ [(NotesProbe, Returns p), (s2, Returns r)] \<longrightarrow>
    fst (getNotesFromFolder w folder tr) =
      (if startsWith r ''ERROR:''
       then Inr \<lparr>fn_success = False, fn_notes = None,
                  fn_message = Some (replace r ''ERROR:'' [])\<rparr>
       else Inr \<lparr>fn_success = True, fn_notes = Some [], fn_message = None\<rparr>)) \<and>
   (snd (getUnreadMails w limit tr) =
      tr @ [(MailProbe, Returns p), (s3, Returns r)] \<longrightarrow>
    fst (getUnreadMails w limit tr) = Inr []) \<and>
   (snd (sendMail w to subject text cc bcc tr) =
      tr @ [(MailProbe, Returns p), (s4, Returns r)] \<longrightarrow>
    fst (sendMail w to subject text cc bcc tr) =
      (if r = ''SUCCESS''
       then Inr (''Email sent to '' @ to @ '' with subject '' @
                 [CHR 0x22] @ subject @ [CHR 0x22])
       else Inl ''Error sending email: Failed to send email''))"
proof (intro conjI impI)
  assume "snd (createNote w title body folderName tr) =
            tr @ [(NotesProbe, Returns p), (s1, Returns r)]"
  from createNote_classifies [OF this]
  show "fst (createNote w title body folderName tr) =
      (if startsWith r ''SUCCESS:''
       then Inr \<lparr>cn_success = True,
              cn_note = Some \<lparr>note_name = title, note_content = trim body,
                              note_creationDate = None, note_modificationDate = None\<rparr>,
              cn_message = None,
              cn_folderName = Some (nth_or (split r CHR '':'') 1 ''Notes''),
              cn_usedDefaultFolder =
                Some (2 < length (split r CHR '':'') \<and> split r CHR '':'' ! 2 = ''true'')\<rparr>
       else Inr \<lparr>cn_success = False, cn_note = None,
              cn_message = Some (''Failed to create note: '' @
                 (if r \<noteq> [] then r else ''No result from AppleScript'')),
              cn_folderName = None, cn_usedDefaultFolder = None\<rparr>)" .
next
  assume "snd (getNotesFromFolder w folder tr) =
            tr @ [(NotesProbe, Returns p), (s2, Returns r)]"
  from getNotesFromFolder_classifies [OF this]
  show "fst (getNotesFromFolder w folder tr) =
      (if startsWith r ''ERROR:''
       then Inr \<lparr>fn_success = False, fn_notes = None,
                  fn_message = Some (replace r ''ERROR:'' [])\<rparr>
       else Inr \<lparr>fn_success = True, fn_notes = Some [], fn_message = None\<rparr>)" .
next
  show "fst (getUnreadMails w limit tr) = Inr []"
    by (cases "native w tr MailProbe")
       (auto simp add: getUnreadMails_def access_runs io_defs Let_def split: reply.splits)
next
  assume "snd (sendMail w to subject text cc bcc tr) =
            tr @ [(MailProbe, Returns p), (s4, Returns r)]"
  from sendMail_classifies [OF this]
  show "fst (sendMail w to subject text cc bcc tr) =
      (if r = ''SUCCESS''
       then Inr (''Email sent to '' @ to @ '' with subject '' @
                 [CHR 0x22] @ subject @ [CHR 0x22])
       else Inl ''Error sending email: Failed to send email'')" .
qed

theorem sentinel_classification_witness:
  "snd (createNote (granting ''done'') ''T'' ''b'' None []) =
     [] @ [(NotesProbe, Returns ''done''),
           (CreateNoteScript ''Claude'' ''T'' (NoteContentTmp 0), Returns ''done'')] \<and>
   fst (createNote (granting ''done'') ''T'' ''b'' None []) =
     Inr \<lparr>cn_success = False, cn_note = None,
           cn_message = Some ''Failed to create note: done'',
           cn_folderName = None, cn_usedDefaultFolder = None\<rparr> \<and>
   snd (getNotesFromFolder (granting ''done'') ''Claude'' []) =
     [] @ [(NotesProbe, Returns ''done''), (FolderNotesScript ''Claude'', Returns ''done'')] \<and>
   fst (getNotesFromFolder (granting ''done'') ''Claude'' []) =
     Inr \<lparr>fn_success = True, fn_notes = Some [], fn_message = None\<rparr> \<and>
   snd (getUnreadMails (granting ''done'') None []) =
     [] @ [(MailProbe, Returns ''done''), (UnreadMailsScript 10, Returns ''done'')] \<and>
   fst (getUnreadMails (granting ''done'') None []) = Inr [] \<and>
   snd (sendMail (granting ''done'') ''a@b.c'' ''Hi'' ''Body'' None None []) =
     [] @ [(MailProbe, Returns ''done''),
           (SendMailScript (EmailBodyTmp 0) ''Hi'' ''a@b.c'' None None, Returns ''done'')] \<and>
   fst (sendMail (granting ''done'') ''a@b.c'' ''Hi'' ''Body'' None None []) =
     Inl ''Error sending email: Failed to send email''"
proof -
  have logs:
    "snd (createNote (granting ''done'') ''T'' ''b'' None []) =
       [] @ [(NotesProbe, Returns ''done''),
             (CreateNoteScript ''Claude'' ''T'' (NoteContentTmp 0), Returns ''done'')]"
    "snd (getNotesFromFolder (granting ''done'') ''Claude'' []) =
       [] @ [(NotesProbe, Returns ''done''), (FolderNotesScript ''Claude'', Returns ''done'')]"
    "snd (getUnreadMails (granting ''done'') None []) =
       [] @ [(MailProbe, Returns ''done''), (UnreadMailsScript 10, Returns ''done'')]"
    "snd (sendMail (granting ''done'') ''a@b.c'' ''Hi'' ''Body'' None None []) =
       [] @ [(MailProbe, Returns ''done''),
             (SendMailScript (EmailBodyTmp 0) ''Hi'' ''a@b.c'' None None, Returns ''done'')]"
    by (simp_all add: granting_def answering_def access_runs createNote_def
          getNotesFromFolder_def getUnreadMails_def sendMail_def io_defs startsWith_def
          blank_def trim_def is_space_def escape_quotes_def recipient_line_def Let_def
          default_to_def MAX_EMAILS_def)
  have s: "\<not> startsWith ''done'' ''SUCCESS:''" "\<not> startsWith ''done'' ''ERROR:''"
    by (simp_all add: startsWith_def)
  from logs s
    sentinel_classification [of "granting ''done''" "''T''" "''b''" None "[]" "''done''"
      "CreateNoteScript ''Claude'' ''T'' (NoteContentTmp 0)" "''done''"
      "''Claude''" "FolderNotesScript ''Claude''" None "UnreadMailsScript 10"
      "''a@b.c''" "''Hi''" "''Body''" None None
      "SendMailScript (EmailBodyTmp 0) ''Hi'' ''a@b.c'' None None"]
  show ?thesis by simp
qed

text \<open>
  Claim C6. Each read or search operation always returns to its caller, never throwing,
  and when a native dispatch of the call raised an error or a timeout the collection it
  returns is empty.
\<close>

theorem read_operations_swallow_errors:
  assumes "read_operation c"
  shows "\<exists>out. fst (invoke w c tr) = Inr out \<and>
           ((\<exists>s e. (s, Throws e) \<in> set (dispatched w c tr)) \<longrightarrow> empty_result (Inr out))"
proof (cases "native w tr (probe (app_of c))")
  case (Throws e)
  then show ?thesis
    using assms
    by (cases c) (simp_all add: op_defs access_runs io_defs dispatched_def)
next
  case (Returns v)
  then show ?thesis
    using assms
    by (cases c)
       (auto simp add: op_defs access_runs io_defs dispatched_def Let_def
          split: reply.splits)
qed

theorem read_operations_swallow_errors_witness:
  "read_operation GetAllNotes \<and>
   (AllNotesScript, Throws ''timed out'') \<in> set (dispatched
      (answering (\<lambda>s. if s = NotesProbe then Returns ''Notes'' else Throws ''timed out''))
      GetAllNotes []) \<and>
   fst (invoke (answering (\<lambda>s. if s = NotesProbe then Returns ''Notes'' else Throws ''timed out''))
          GetAllNotes []) = Inr (NoteList [])"
  using read_operations_swallow_errors [of GetAllNotes
      "answering (\<lambda>s. if s = NotesProbe then Returns ''Notes'' else Throws ''timed out'')" "[]"]
  by (auto simp add: answering_def access_runs getAllNotes_def io_defs dispatched_def)

text \<open>
  Claim C8. Whatever the arguments and whatever the native side answers,
  \<^verbatim>\<open>searchMails\<close>, \<^verbatim>\<open>getUnreadMails\<close>, \<^verbatim>\<open>searchReminders\<close>, \<^verbatim>\<open>getAllReminders\<close>,
  \<^verbatim>\<open>getRemindersFromListById\<close> and \<^verbatim>\<open>searchEvents\<close> return the empty list.
\<close>

theorem always_empty:
  "fst (searchMails w searchTerm limit tr) = Inr [] \<and>
   fst (getUnreadMails w limit tr) = Inr [] \<and>
   fst (searchReminders w searchText tr) = Inr [] \<and>
   fst (getAllReminders w listName tr) = Inr [] \<and>
   fst (getRemindersFromListById w listId props tr) = Inr [] \<and>
   fst (searchEvents w searchText limit fromDate toDate tr) = Inr []"
proof -
  have mail: "fst (searchMails w searchTerm limit tr) = Inr [] \<and>
              fst (getUnreadMails w limit tr) = Inr []"
    by (cases "native w tr MailProbe")
       (auto simp add: op_defs access_runs io_defs Let_def split: reply.splits)
  have rem: "fst (searchReminders w searchText tr) = Inr [] \<and>
   fst (getAllReminders w listName tr) = Inr [] \<and>
   fst (getRemindersFromListById w listId props tr) = Inr []"
    by (cases "native w tr RemindersProbe")
       (auto simp add: op_defs access_runs io_defs Let_def split: reply.splits)
  have cal: "fst (searchEvents w searchText limit fromDate toDate tr) = Inr []"
    by (cases "native w tr CalendarProbe")
       (auto simp add: op_defs access_runs io_defs Let_def split: reply.splits)
  from mail rem cal show ?thesis by simp
qed

text \<open>
  Claim C9, as stated, fails. The title of one space is not empty, access is granted and
  the native side answers every script with \<^verbatim>\<open>SUCCESS:Notes:true\<close>, yet \<^verbatim>\<open>createNote\<close>
  returns \<^verbatim>\<open>success = false\<close> and never dispatches the script. In the same world with a
  proper title, it returns \<^verbatim>\<open>success = false\<close> as well when the body cannot be written
  to its temporary file.
\<close>

theorem createNote_counterexample:
  "'' '' \<noteq> [] \<and>
   createNote (granting ''SUCCESS:Notes:true'') '' '' ''b'' None [] =
     (Inr \<lparr>cn_success = False, cn_note = None,
            cn_message = Some ''Note title cannot be empty'',
            cn_folderName = None, cn_usedDefaultFolder = None\<rparr>,
      [(NotesProbe, Returns ''SUCCESS:Notes:true'')]) \<and>
   createNote ((granting ''SUCCESS:Notes:true'')\<lparr>write_error := \<lambda>p c. Some ''EACCES''\<rparr>)
       ''T'' ''b'' None [] =
     (Inr \<lparr>cn_success = False, cn_note = None,
            cn_message = Some ''Failed to create note: EACCES'',
            cn_folderName = None, cn_usedDefaultFolder = None\<rparr>,
      [(NotesProbe, Returns ''SUCCESS:Notes:true'')])"
  by (simp add: granting_def answering_def access_runs createNote_def io_defs blank_def
        trim_def is_space_def Let_def)

text \<open>
  Claim C9, amended. For every title that is not blank (not empty after trimming), when
  access is granted, the body is written to its temporary file and the note script runs
  without raising, \<^verbatim>\<open>createNote\<close> returns \<^verbatim>\<open>success = true\<close> with the note named by the
  title argument and holding the trimmed body, whether the script found the requested
  folder, made it, or did neither; and when the script did not find a folder, so that
  the note was placed in the default location, the result has
  \<^verbatim>\<open>usedDefaultFolder = true\<close> and folder name \<^verbatim>\<open>Notes\<close>. The native side is any run
  of the script as it is written: every outcome of its folder searches and of the folder
  creation is allowed.
\<close>

theorem createNote_reports_success:
  assumes "\<not> blank title"
    and "native w tr NotesProbe = Returns p"
    and "write_error w (NoteContentTmp (now w)) (trim body) = None"
    and "native w (tr @ [(NotesProbe, Returns p)])
           (CreateNoteScript (default_to folderName ''Claude'') (escape_quotes title)
              (NoteContentTmp (now w))) =
         create_note_script run (default_to folderName ''Claude'')"
    and "reads_file run" and "makes_note run"
  shows "\<exists>res. fst (createNote w title body folderName tr) = Inr res \<and>
           cn_success res \<and>
           cn_note res = Some \<lparr>note_name = title, note_content = trim body,
                               note_creationDate = None, note_modificationDate = None\<rparr> \<and>
           (\<not> fst (script_folder run (default_to folderName ''Claude'')) \<longrightarrow>
              cn_usedDefaultFolder res = Some True \<and> cn_folderName res = Some ''Notes'')"
proof (cases "script_folder run (default_to folderName ''Claude'')")
  case (Pair folderFound actualFolderName)
  show ?thesis
  proof (cases folderFound)
    case True
    with Pair assms show ?thesis
      by (simp add: createNote_def create_note_script_def access_runs io_defs Let_def
            startsWith_def)
  next
    case False
    with Pair assms show ?thesis
      by (simp add: createNote_def create_note_script_def access_runs io_defs Let_def
            startsWith_def nth_or_def)
  qed
qed

theorem createNote_reports_success_witness:
  "\<not> blank ''T'' \<and>
   \<not> fst (script_folder
      \<lparr>first_search = Some False, text_is = (=), second_search = None,
       reads_file = True, makes_note = True, error_text = []\<rparr> ''Missing'') \<and>
   fst (createNote
          (answering (\<lambda>s. case s of
               CreateNoteScript f t tmp \<Rightarrow>
                 create_note_script
                   \<lparr>first_search = Some False, text_is = (=), second_search = None,
                    reads_file = True, makes_note = True, error_text = []\<rparr> f
             | _ \<Rightarrow> Returns ''Notes''))
          ''T'' '' b '' (Some ''Missing'') []) =
     Inr \<lparr>cn_success = True,
           cn_note = Some \<lparr>note_name = ''T'', note_content = ''b'',
                           note_creationDate = None, note_modificationDate = None\<rparr>,
           cn_message = None, cn_folderName = Some ''Notes'',
           cn_usedDefaultFolder = Some True\<rparr>"
proof -
  let ?run = "\<lparr>first_search = Some False, text_is = (=), second_search = None,
                reads_file = True, makes_note = True, error_text = []\<rparr>"
  let ?w = "answering (\<lambda>s. case s of
               CreateNoteScript f t tmp \<Rightarrow> create_note_script ?run f
             | _ \<Rightarrow> Returns ''Notes'')"
  have t: "\<not> blank ''T''"
    by (simp add: blank_def trim_def is_space_def)
  have p: "native ?w [] NotesProbe = Returns ''Notes''"
    by (simp add: answering_def)
  have f: "write_error ?w (NoteContentTmp (now ?w)) (trim '' b '') = None"
    by (simp add: answering_def)
  have n: "native ?w ([] @ [(NotesProbe, Returns ''Notes'')])
             (CreateNoteScript (default_to (Some ''Missing'') ''Claude'') (escape_quotes ''T'')
                (NoteContentTmp (now ?w))) =
           create_note_script ?run (default_to (Some ''Missing'') ''Claude'')"
    by (simp add: answering_def)
  have r: "reads_file ?run" "makes_note ?run"
    by simp_all
  have d: "\<not> fst (script_folder ?run ''Missing'')"
    by (simp add: script_folder_def)
  have b: "trim '' b '' = ''b''"
    by (simp add: trim_def is_space_def)
  from createNote_reports_success [OF t p f n r] t d b show ?thesis
    by (simp add: default_to_def answering_def access_runs createNote_def
          create_note_script_def script_folder_def io_defs Let_def blank_def trim_def
          is_space_def startsWith_def escape_quotes_def nth_or_def)
qed

text \<open>
  Claim C10. When the title is blank, a date is missing, a date does not parse or the
  end is not strictly after the start, \<^verbatim>\<open>createEvent\<close> returns \<^verbatim>\<open>success = false\<close> with a
  non-empty message (the probe's instructions or the message of the failed check), and
  the access probe is the only native dispatch of the call: the event-creation script is
  never executed.
\<close>

theorem createEvent_validates:
  assumes "trim title = [] \<or> startDate = [] \<or> endDate = [] \<or>
           parse_date w startDate = None \<or> parse_date w endDate = None \<or>
           (\<exists>start end. parse_date w startDate = Some start \<and>
                        parse_date w endDate = Some end \<and> end \<le> start)"
  shows "\<exists>res. createEvent w title startDate endDate location notes isAllDay calendarName tr =
                 (Inr res, tr @ [(CalendarProbe, native w tr CalendarProbe)]) \<and>
               \<not> cal_success res \<and> cal_message res \<noteq> [] \<and>
               cal_message res \<in> set [calendar_instructions,
                 ''Event title cannot be empty'',
                 ''Start date and end date are required'',
                 ''Invalid date format. Please use ISO format (YYYY-MM-DDTHH:mm:ss.sssZ)'',
                 ''End date must be after start date'']"
proof (cases "native w tr CalendarProbe")
  case (Throws e)
  then show ?thesis
    by (simp add: createEvent_def access_runs io_defs instructions_nonempty)
next
  case (Returns v)
  then show ?thesis
    using assms
    by (auto simp add: createEvent_def access_runs io_defs split: option.splits)
qed

theorem createEvent_validates_witness:
  "trim ''  '' = [] \<and>
   createEvent (granting ''ok'') ''  '' ''2026-01-01'' ''2026-01-02'' None None None None [] =
     (Inr \<lparr>cal_success = False, cal_message = ''Event title cannot be empty'',
            cal_eventId = None\<rparr>,
      [(CalendarProbe, Returns ''ok'')])"
proof -
  have t: "trim ''  '' = []"
    by (simp add: trim_def is_space_def)
  then have "trim ''  '' = [] \<or> ''2026-01-01'' = [] \<or> ''2026-01-02'' = [] \<or>
           parse_date (granting ''ok'') ''2026-01-01'' = None \<or>
           parse_date (granting ''ok'') ''2026-01-02'' = None \<or>
           (\<exists>start end. parse_date (granting ''ok'') ''2026-01-01'' = Some start \<and>
                        parse_date (granting ''ok'') ''2026-01-02'' = Some end \<and> end \<le> start)"
    by simp
  from createEvent_validates [OF this, of None None None None "[]"] t show ?thesis
    by (simp add: granting_def answering_def access_runs createEvent_def io_defs)
qed

end
